theory Spec2Isabelle
  imports Complex_Main "HOL-Library.Sublist" "HOL-Library.AList" "HOL-Library.Log_Nat"
begin

unbundle bit_operations_syntax

section \<open>The G-code lexer and parser of libtatlin (gcodeparser2.py)\<close>

text \<open>
  The module is Python 2 (its sibling actors.py uses the print statement). Strings are
  byte strings, modelled as \<^typ>\<open>string\<close>. Every exception the code can raise is a
  constructor of \<open>error\<close>, and a function that can raise returns \<open>error + 'a\<close>.
  A float is a binary64 number. A finite one is modelled by the real number it denotes
  (0.0 and -0.0, which compare equal, are one value), and the result of a conversion,
  of a literal and of a subtraction is rounded to binary64. Infinities, NaN and
  overflow are outside the model.
\<close>

subsection \<open>Exceptions\<close>

datatype error =
    KeyError char
  | IndexError
  | NameError string
  | TypeError
  | GcodeArgumentError string
  | GcodeParserError string

subsection \<open>String primitives of the language\<close>

text \<open>\<open>sub in s\<close> on strings: \<open>sub\<close> occurs in \<open>s\<close> as a contiguous run.\<close>

fun contains :: "string \<Rightarrow> string \<Rightarrow> bool" where
  "contains sub [] = (sub = [])"
| "contains sub (c # cs) = (prefix sub (c # cs) \<or> contains sub cs)"

text \<open>\<open>s.find(c)\<close> for a one-character \<open>c\<close>: the first index, or \<open>-1\<close>.\<close>

fun str_find :: "string \<Rightarrow> char \<Rightarrow> int" where
  "str_find [] c = -1"
| "str_find (x # xs) c =
     (if x = c then 0
      else (let i = str_find xs c in if i < 0 then -1 else i + 1))"

text \<open>
  \<open>s.replace(old, new)\<close>: the occurrences of \<open>old\<close> are found left to right and do not
  overlap. For an empty \<open>old\<close> Python puts \<open>new\<close> before every character and at the end.
\<close>

function replace :: "string \<Rightarrow> string \<Rightarrow> string \<Rightarrow> string" where
  "replace old new [] = (if old = [] then new else [])"
| "replace old new (c # cs) =
     (if old = [] then new @ c # replace old new cs
      else if prefix old (c # cs) then new @ replace old new (drop (length old) (c # cs))
      else c # replace old new cs)"
  by pat_completeness auto
termination
  by (relation "measure (\<lambda>(old, new, s). length s)") auto

text \<open>\<open>s.split(sep)\<close> for a one-character separator: never an empty list.\<close>

fun split_sep :: "char \<Rightarrow> string \<Rightarrow> string list" where
  "split_sep sep [] = [[]]"
| "split_sep sep (c # cs) =
     (if c = sep then [] # split_sep sep cs
      else (case split_sep sep cs of
              [] \<Rightarrow> [[c]]
            | l # ls \<Rightarrow> (c # l) # ls))"

text \<open>
  \<open>s.split()\<close> with no argument: runs of whitespace separate the words, and no word is
  empty. For a byte string the whitespace characters are space, tab, line feed, carriage
  return, vertical tab and form feed.
\<close>

definition isspace :: "char \<Rightarrow> bool" where
  "isspace c = (c \<in> set [CHR '' '', CHR 0x09, CHR 0x0A, CHR 0x0D, CHR 0x0B, CHR 0x0C])"

fun split_words :: "string \<Rightarrow> string \<Rightarrow> string list" where
  "split_words cur [] = (if cur = [] then [] else [cur])"
| "split_words cur (c # cs) =
     (if isspace c then (if cur = [] then split_words [] cs else cur # split_words [] cs)
      else split_words (cur @ [c]) cs)"

definition split_ws :: "string \<Rightarrow> string list" where
  "split_ws s = split_words [] s"

text \<open>The \<open>%d\<close> conversion of a natural number.\<close>

fun str_of_nat :: "nat \<Rightarrow> string" where
  "str_of_nat n =
     (if n < 10 then [char_of (48 + n)]
      else str_of_nat (n div 10) @ [char_of (48 + n mod 10)])"

subsection \<open>Binary64 arithmetic\<close>

text \<open>
  \<open>binade x\<close> is the exponent \<open>e\<close> with \<open>2^e \<le> |x| < 2^(e+1)\<close>, computed from the bit
  length of the integer part of \<open>|x|\<close> or of its inverse. A binary64 number has 53
  significant bits, so in that binade the representable numbers are the multiples of
  \<open>2^(e-52)\<close>; below \<open>2^(-1022)\<close> (subnormal numbers) they are the multiples of
  \<open>2^(-1074)\<close>. Rounding is to the nearest multiple, a tie going to the even one.
\<close>

definition binade :: "real \<Rightarrow> int" where
  "binade x =
     (let a = \<bar>x\<bar>
      in if 1 \<le> a then bitlen \<lfloor>a\<rfloor> - 1
         else (let g = bitlen \<lfloor>1 / a\<rfloor>
               in if 2 powi (1 - g) \<le> a then 1 - g else - g))"

definition round_half_even :: "real \<Rightarrow> int" where
  "round_half_even q =
     (let n = \<lfloor>q\<rfloor>
      in if q - of_int n < 1 / 2 then n
         else if q - of_int n > 1 / 2 then n + 1
         else if even n then n else n + 1)"

definition round_binary64 :: "real \<Rightarrow> real" where
  "round_binary64 x =
     (let ulp = 2 powi (max (- 1022) (binade x) - 52)
      in of_int (round_half_even (x / ulp)) * ulp)"

subsection \<open>GcodeLexer\<close>

type_synonym args = "(char \<times> real option) list"
type_synonym command = "string \<times> args \<times> string"

text \<open>
  \<open>split_lines\<close>: \<open>content.replace('\r', '\n').replace('\n\n', '\n').split('\n')\<close>.
\<close>

definition CR :: char where "CR = CHR 0x0D"
definition LF :: char where "LF = CHR 0x0A"

definition split_lines :: "string \<Rightarrow> string list" where
  "split_lines content = split_sep LF (replace [LF, LF] [LF] (replace [CR] [LF] content))"

text \<open>
  \<open>split_comment\<close>: the command part ends at the first semicolon; within what is left,
  it ends at the first opening parenthesis. The slices \<open>line[:i]\<close> and \<open>line[i:]\<close> are
  taken at a non-negative index only.
\<close>

definition split_comment :: "string \<Rightarrow> string \<times> string" where
  "split_comment line =
     (let idx_semi = str_find line (CHR '';'');
          (command, comment) =
             (if idx_semi \<ge> 0 then (take (nat idx_semi) line, drop (nat idx_semi) line)
              else (line, []));
          idx_paren = str_find command (CHR ''('')
      in if idx_paren \<ge> 0
         then (take (nat idx_paren) command, drop (nat idx_paren) command @ comment)
         else (command, comment))"

text \<open>
  The builtin \<open>float\<close> is not part of the module: the lexer takes it as the parameter
  \<open>flt\<close>, which gives the value, or (\<open>Inl\<close>) the message of the ValueError it raises.

  \<open>scan_args\<close>: the word's first character is the key; the rest, when there is one, is
  converted, and a ValueError becomes a GcodeArgumentError with the same message. The
  right-hand side of \<open>d[arg[0]] = float(arg[1:])\<close> is evaluated first. An empty word
  (which \<open>split\<close> never produces) has no first character.
\<close>

fun scan_args_loop :: "(string \<Rightarrow> string + real) \<Rightarrow> string list \<Rightarrow> args \<Rightarrow> error + args" where
  "scan_args_loop flt [] d = Inr d"
| "scan_args_loop flt (arg # rest) d =
     (if drop 1 arg \<noteq> []
      then (case flt (drop 1 arg) of
              Inl msg \<Rightarrow> Inl (GcodeArgumentError msg)
            | Inr v \<Rightarrow> scan_args_loop flt rest (AList.update (hd arg) (Some v) d))
      else (case arg of
              [] \<Rightarrow> Inl IndexError
            | k # _ \<Rightarrow> scan_args_loop flt rest (AList.update k None d)))"

definition scan_args :: "(string \<Rightarrow> string + real) \<Rightarrow> string list \<Rightarrow> error + args" where
  "scan_args flt args = scan_args_loop flt args []"

definition scan_line :: "(string \<Rightarrow> string + real) \<Rightarrow> string \<Rightarrow> error + command" where
  "scan_line flt line =
     (let (command, comment) = split_comment line;
          parts = split_ws command
      in if parts \<noteq> []
         then (case scan_args flt (tl parts) of
                 Inl e \<Rightarrow> Inl e
               | Inr d \<Rightarrow> Inr (hd parts, d, comment))
         else Inr ([], [], comment))"

definition is_blank :: "command \<Rightarrow> bool" where
  "is_blank tokens = (tokens = ([], [], []))"

text \<open>
  \<open>scan\<close> is a generator: it produces the commands one at a time, and the consumer runs
  between two of them. It ends normally, yields a command and goes on, or raises.
  A GcodeArgumentError of the line being scanned is raised again as a GcodeParserError
  whose message is
  \<open>'Error parsing arguments: %s on line %d\n\t%s' % (str(e), self.line_no, self.current_line)\<close>.
\<close>

datatype 'a generator = StopIteration | Yield 'a "'a generator" | Raise error

definition parse_error_message :: "string \<Rightarrow> nat \<Rightarrow> string \<Rightarrow> string" where
  "parse_error_message msg line_no current_line =
     ''Error parsing arguments: '' @ msg @ '' on line '' @ str_of_nat line_no
       @ [CHR 0x0A, CHR 0x09] @ current_line"

fun scan_from :: "(string \<Rightarrow> string + real) \<Rightarrow> nat \<Rightarrow> string list \<Rightarrow> command generator" where
  "scan_from flt line_idx [] = StopIteration"
| "scan_from flt line_idx (line # rest) =
     (let line_no = line_idx + 1
      in case scan_line flt line of
           Inl (GcodeArgumentError msg) \<Rightarrow>
             Raise (GcodeParserError (parse_error_message msg line_no line))
         | Inl e \<Rightarrow> Raise e
         | Inr tokens \<Rightarrow>
             if \<not> is_blank tokens then Yield tokens (scan_from flt (line_idx + 1) rest)
             else scan_from flt (line_idx + 1) rest)"

definition scan :: "(string \<Rightarrow> string + real) \<Rightarrow> string list \<Rightarrow> command generator" where
  "scan flt lines = scan_from flt 0 lines"

subsection \<open>Movement\<close>

type_synonym point = "real option \<times> real option \<times> real option"

record movement =
  src :: point
  dst :: point
  delta_e :: "real option"
  feedrate :: "real option"
  flags :: int

definition FLAG_PERIMETER :: int where "FLAG_PERIMETER = 1"
definition FLAG_PERIMETER_OUTER :: int where "FLAG_PERIMETER_OUTER = 2"
definition FLAG_LOOP :: int where "FLAG_LOOP = 4"
definition FLAG_SURROUND_LOOP :: int where "FLAG_SURROUND_LOOP = 8"
definition FLAG_EXTRUDER_ON :: int where "FLAG_EXTRUDER_ON = 16"

subsection \<open>GcodeParser\<close>

definition marker_layer :: string where "marker_layer = ''(<layer>''"
definition marker_perimeter_start :: string where "marker_perimeter_start = ''(<perimeter>''"
definition marker_perimeter_end :: string where "marker_perimeter_end = ''(</perimeter>)''"
definition marker_loop_start :: string where "marker_loop_start = ''(<loop>''"
definition marker_loop_end :: string where "marker_loop_end = ''(</loop>)''"
definition marker_surrounding_loop_start :: string where
  "marker_surrounding_loop_start = ''(<surroundingLoop>)''"
definition marker_surrounding_loop_end :: string where
  "marker_surrounding_loop_end = ''(</surroundingLoop>)''"

text \<open>
  The parser object (\<open>self.src\<close>, \<open>self.e_len\<close>, \<open>self.flags\<close>) together with the two
  locals of \<open>parse\<close>, \<open>layers\<close> and \<open>movements\<close>.
\<close>

record parser =
  self_src :: "point option"
  self_e_len :: "real option"
  self_flags :: int
  layers :: "movement list list"
  movements :: "movement list"

definition new_parser :: parser where
  "new_parser = \<lparr>self_src = None, self_e_len = Some 0, self_flags = 0,
                  layers = [], movements = []\<rparr>"

text \<open>\<open>args[k]\<close>: a missing key raises KeyError.\<close>

definition getitem :: "args \<Rightarrow> char \<Rightarrow> error + real option" where
  "getitem d k = (case map_of d k of None \<Rightarrow> Inl (KeyError k) | Some v \<Rightarrow> Inr v)"

definition command_coords :: "command \<Rightarrow> error + point option" where
  "command_coords command =
     (let (gcode, args, comment) = command
      in if gcode = ''G1''
         then (case getitem args (CHR ''X'') of
                 Inl e \<Rightarrow> Inl e
               | Inr x \<Rightarrow>
                   (case getitem args (CHR ''Y'') of
                      Inl e \<Rightarrow> Inl e
                    | Inr y \<Rightarrow>
                        (case getitem args (CHR ''Z'') of
                           Inl e \<Rightarrow> Inl e
                         | Inr z \<Rightarrow> Inr (Some (x, y, z)))))
         else Inr None)"

text \<open>
  \<open>is_new_layer\<close>: the marker is looked for first. \<open>dst[2] - self.src[2]\<close> raises TypeError
  when \<open>self.src\<close> is None or when one of the two Z values is None. The difference is
  a binary64 subtraction, and it is compared with the binary64 number that the literal
  \<open>0.1\<close> denotes.
\<close>

definition is_new_layer :: "point option \<Rightarrow> point \<Rightarrow> string \<Rightarrow> string \<Rightarrow> error + bool" where
  "is_new_layer self_src' dst' gcode comment =
     (if contains marker_layer comment then Inr True
      else if gcode \<in> set [''G1'', ''G2'', ''G3'']
      then (case (snd (snd dst'), self_src') of
              (Some dz, Some (sx, sy, Some sz)) \<Rightarrow>
                 if round_binary64 (dz - sz) > round_binary64 (1 / 10)
                 then Inr True else Inr False
            | _ \<Rightarrow> Inl TypeError)
      else Inr False)"

text \<open>\<open>set_flags\<close>: one chain of \<open>if\<close> and \<open>elif\<close> on the comment, then on the word.\<close>

definition set_flags :: "int \<Rightarrow> command \<Rightarrow> int" where
  "set_flags fl command =
     (let (gcode, args, comment) = command
      in if contains marker_loop_start comment then fl OR FLAG_LOOP
         else if contains marker_loop_end comment then fl AND NOT FLAG_LOOP
         else if contains marker_perimeter_start comment
         then (let fl1 = fl OR FLAG_PERIMETER
               in if contains ''outer'' comment then fl1 OR FLAG_PERIMETER_OUTER else fl1)
         else if contains marker_perimeter_end comment
         then fl AND NOT (FLAG_PERIMETER OR FLAG_PERIMETER_OUTER)
         else if contains marker_surrounding_loop_start comment then fl OR FLAG_SURROUND_LOOP
         else if contains marker_surrounding_loop_end comment
         then fl AND NOT FLAG_SURROUND_LOOP
         else if gcode = ''M101'' then fl OR FLAG_EXTRUDER_ON
         else if gcode = ''M103'' then fl AND NOT FLAG_EXTRUDER_ON
         else fl)"

text \<open>
  Two names that \<open>parse\<close> reads are bound nowhere in the module: \<open>delta_e\<close>, an argument
  of the call that builds the Movement, and \<open>GcodeParseError\<close>, the class it means to
  raise for an input without layers (the class defined is GcodeParserError). Reading
  an unbound name raises NameError.
\<close>

definition unbound_name :: "string \<Rightarrow> error + 'a" where
  "unbound_name name = Inl (NameError name)"

text \<open>
  The body of the loop of \<open>parse\<close>, for one command. The arguments of
  \<open>Movement(self.src, dst, delta_e, feedrate, self.flags)\<close> are evaluated before the call.
\<close>

definition build_movement :: "parser \<Rightarrow> point \<Rightarrow> real option \<Rightarrow> string \<Rightarrow> string \<Rightarrow> error + parser" where
  "build_movement p dst' feedrate' gcode comment =
     (case unbound_name ''delta_e'' of
        Inl e \<Rightarrow> Inl e
      | Inr delta_e' \<Rightarrow>
          (let move = \<lparr>src = the (self_src p), dst = dst', delta_e = delta_e',
                       feedrate = feedrate', flags = self_flags p\<rparr>;
               p1 = p\<lparr>movements := movements p @ [move]\<rparr>
           in case is_new_layer (self_src p1) dst' gcode comment of
                Inl e \<Rightarrow> Inl e
              | Inr True \<Rightarrow> Inr (p1\<lparr>layers := layers p1 @ [movements p1], movements := []\<rparr>)
              | Inr False \<Rightarrow> Inr p1))"

definition loop_body :: "parser \<Rightarrow> command \<Rightarrow> error + parser" where
  "loop_body p command =
     (let (gcode, args, comment) = command
      in case command_coords command of
           Inl e \<Rightarrow> Inl e
         | Inr dst' \<Rightarrow>
         (case getitem args (CHR ''E'') of
           Inl e \<Rightarrow> Inl e
         | Inr e_len \<Rightarrow>
         (case getitem args (CHR ''F'') of
           Inl e \<Rightarrow> Inl e
         | Inr feedrate' \<Rightarrow>
         (let p1 = p\<lparr>self_flags := set_flags (self_flags p) command\<rparr>
          in case (if self_src p1 \<noteq> None \<and> dst' \<noteq> None \<and> self_src p1 \<noteq> dst'
                   then build_movement p1 (the dst') feedrate' gcode comment
                   else Inr p1) of
               Inl e \<Rightarrow> Inl e
             | Inr p2 \<Rightarrow>
                 (let p3 = (if dst' \<noteq> None then p2\<lparr>self_src := dst'\<rparr> else p2)
                  in Inr (p3\<lparr>self_e_len := e_len\<rparr>))))))"

fun parse_loop :: "parser \<Rightarrow> command generator \<Rightarrow> error + parser" where
  "parse_loop p StopIteration = Inr p"
| "parse_loop p (Raise e) = Inl e"
| "parse_loop p (Yield command rest) =
     (case loop_body p command of
        Inl e \<Rightarrow> Inl e
      | Inr p' \<Rightarrow> parse_loop p' rest)"

text \<open>
  After the loop: the leftover movements are a last layer, and an empty list of layers
  is an error. (The two calls of \<open>time.time\<close> and the log line have no part in the result.)
\<close>

definition finish :: "parser \<Rightarrow> error + movement list list" where
  "finish p =
     (let layers' = (if length (movements p) > 0 then layers p @ [movements p] else layers p)
      in if length layers' < 1 then unbound_name ''GcodeParseError'' else Inr layers')"

definition parse :: "(string \<Rightarrow> string + real) \<Rightarrow> parser \<Rightarrow> string list \<Rightarrow> error + movement list list" where
  "parse flt p lines =
     (case parse_loop (p\<lparr>layers := [], movements := []\<rparr>) (scan flt lines) of
        Inl e \<Rightarrow> Inl e
      | Inr p' \<Rightarrow> finish p')"

text \<open>\<open>load\<close> followed by \<open>parse\<close>, on a parser just made, for a text given as a string.\<close>

definition load :: "string \<Rightarrow> string list" where
  "load gcode = split_lines gcode"

definition parse_text :: "(string \<Rightarrow> string + real) \<Rightarrow> string \<Rightarrow> error + movement list list" where
  "parse_text flt gcode = parse flt new_parser (load gcode)"

subsection \<open>The builtin float on decimal literals\<close>

text \<open>
  For worked examples, \<open>py_float\<close> is CPython 2.7's \<open>float\<close> on a word without
  whitespace: an optional sign, digits with an optional point (at least one digit), an
  optional exponent; the value is the decimal number rounded to binary64. When no
  number starts the word the message is
  \<open>could not convert string to float: ...\<close>; when a number does and something follows it,
  \<open>invalid literal for float(): ...\<close>; both show at most 200 characters. The words
  \<open>inf\<close>, \<open>infinity\<close> and \<open>nan\<close>, which the builtin also converts, have no real value
  and are not in the domain of this definition. The general theorems hold for every \<open>flt\<close>.
\<close>

definition is_digit :: "char \<Rightarrow> bool" where
  "is_digit c = (48 \<le> (of_char c :: nat) \<and> (of_char c :: nat) \<le> 57)"

definition nat_of_digits :: "string \<Rightarrow> nat" where
  "nat_of_digits ds = foldl (\<lambda>n c. 10 * n + (of_char c - 48)) 0 ds"

definition strip_sign :: "string \<Rightarrow> bool \<times> string" where
  "strip_sign s =
     (case s of
        [] \<Rightarrow> (False, [])
      | c # cs \<Rightarrow>
          if c = CHR ''-'' then (True, cs)
          else if c = CHR ''+'' then (False, cs)
          else (False, s))"

definition py_float :: "string \<Rightarrow> string + real" where
  "py_float s =
     (let (neg, body) = strip_sign s;
          ip = takeWhile is_digit body;
          r1 = dropWhile is_digit body;
          (fp, r2) = (case r1 of
                        [] \<Rightarrow> ([], [])
                      | c # cs \<Rightarrow>
                          if c = CHR ''.'' then (takeWhile is_digit cs, dropWhile is_digit cs)
                          else ([], r1));
          mant = real (nat_of_digits (ip @ fp)) / 10 ^ length fp;
          signed = (if neg then - mant else mant)
      in if ip = [] \<and> fp = []
         then Inl (''could not convert string to float: '' @ take 200 s)
         else (case r2 of
                 [] \<Rightarrow> Inr (round_binary64 signed)
               | c # cs \<Rightarrow>
                   (let (eneg, ed) = strip_sign cs
                    in if (c = CHR ''e'' \<or> c = CHR ''E'') \<and> ed \<noteq> [] \<and> list_all is_digit ed
                       then Inr (round_binary64
                                  (if eneg then signed / 10 ^ nat_of_digits ed
                                   else signed * 10 ^ nat_of_digits ed))
                       else Inl (''invalid literal for float(): '' @ take 200 s))))"

subsection \<open>Vocabulary for the line splitter\<close>

text \<open>
  A text written as lines with a separator after each but the last. A separator is
  CR LF, CR or LF, or one of these characters immediately repeated. \<open>cr_to_lf\<close> is what
  the first \<open>replace\<close> does to one character, and \<open>lf_joint\<close> describes a line and its
  separator after that replacement.
\<close>

fun join_lines :: "(string \<times> string) list \<Rightarrow> string \<Rightarrow> string" where
  "join_lines [] last_line = last_line"
| "join_lines ((l, sep) # rest) last_line = l @ sep @ join_lines rest last_line"

definition separator_free :: "string \<Rightarrow> bool" where
  "separator_free l = (CR \<notin> set l \<and> LF \<notin> set l)"

definition is_separator :: "string \<Rightarrow> bool" where
  "is_separator s = (s \<in> set [[CR, LF], [CR], [LF], [LF, LF], [CR, CR], [LF, CR]])"

definition line_then_separator :: "string \<times> string \<Rightarrow> bool" where
  "line_then_separator ls = (fst ls \<noteq> [] \<and> separator_free (fst ls) \<and> is_separator (snd ls))"

definition cr_to_lf :: "char \<Rightarrow> char" where
  "cr_to_lf c = (if c = CR then LF else c)"


definition lf_joint :: "string \<times> string \<Rightarrow> bool" where
  "lf_joint ls = (fst ls \<noteq> [] \<and> LF \<notin> set (fst ls) \<and> (snd ls = [LF] \<or> snd ls = [LF, LF]))"

subsection \<open>Vocabulary for the tokenizer's errors\<close>

text \<open>
  The argument tokens of a line are the words of its command part after the first. A
  token is malformed when what follows its first character is not empty and the float
  conversion rejects it. \<open>raised\<close> runs a generator to its end and gives the exception
  it ends with, if it ends with one.
\<close>

definition arg_tokens :: "string \<Rightarrow> string list" where
  "arg_tokens line = tl (split_ws (fst (split_comment line)))"

definition malformed :: "(string \<Rightarrow> string + real) \<Rightarrow> string \<Rightarrow> bool" where
  "malformed flt tok = (drop 1 tok \<noteq> [] \<and> isl (flt (drop 1 tok)))"

fun raised :: "'a generator \<Rightarrow> error option" where
  "raised StopIteration = None"
| "raised (Raise e) = Some e"
| "raised (Yield x rest) = raised rest"

subsection \<open>The flag transition table, as the specification words it\<close>

text \<open>
  The specification gives the transitions as a table of triggers and effects, read in
  order, the first trigger that holds deciding. \<open>transition_rules\<close> is that table and
  \<open>first_match\<close> its reading; \<open>has_flag\<close> is the test \<open>flags & FLAG\<close>.
\<close>

type_synonym rule = "(command \<Rightarrow> bool) \<times> (command \<Rightarrow> int \<Rightarrow> int)"

definition comment_has :: "string \<Rightarrow> command \<Rightarrow> bool" where
  "comment_has marker command = contains marker (snd (snd command))"

definition word_is :: "string \<Rightarrow> command \<Rightarrow> bool" where
  "word_is w command = (fst command = w)"

definition set_flag :: "int \<Rightarrow> int \<Rightarrow> int" where
  "set_flag f fl = fl OR f"

definition clear_flag :: "int \<Rightarrow> int \<Rightarrow> int" where
  "clear_flag f fl = fl AND NOT f"

definition transition_rules :: "rule list" where
  "transition_rules =
     [(comment_has marker_loop_start, \<lambda>command. set_flag FLAG_LOOP),
      (comment_has marker_loop_end, \<lambda>command. clear_flag FLAG_LOOP),
      (comment_has marker_perimeter_start,
         \<lambda>command fl. if comment_has ''outer'' command
                       then set_flag FLAG_PERIMETER_OUTER (set_flag FLAG_PERIMETER fl)
                       else set_flag FLAG_PERIMETER fl),
      (comment_has marker_perimeter_end,
         \<lambda>command fl. clear_flag FLAG_PERIMETER_OUTER (clear_flag FLAG_PERIMETER fl)),
      (comment_has marker_surrounding_loop_start, \<lambda>command. set_flag FLAG_SURROUND_LOOP),
      (comment_has marker_surrounding_loop_end, \<lambda>command. clear_flag FLAG_SURROUND_LOOP),
      (word_is ''M101'', \<lambda>command. set_flag FLAG_EXTRUDER_ON),
      (word_is ''M103'', \<lambda>command. clear_flag FLAG_EXTRUDER_ON)]"

fun first_match :: "rule list \<Rightarrow> int \<Rightarrow> command \<Rightarrow> int" where
  "first_match [] fl command = fl"
| "first_match ((trigger, effect) # rules) fl command =
     (if trigger command then effect command fl else first_match rules fl command)"

definition has_flag :: "int \<Rightarrow> int \<Rightarrow> bool" where
  "has_flag fl f = (fl AND f \<noteq> 0)"

section \<open>Properties\<close>

text \<open>
  C10. The comment split loses nothing: the command part followed by the comment is the
  line that was given.
\<close>

theorem split_comment_lossless:
  "fst (split_comment line) @ snd (split_comment line) = line"
proof -
  define command where
    "command = (if str_find line (CHR '';'') \<ge> 0
                then take (nat (str_find line (CHR '';''))) line else line)"
  define comment where
    "comment = (if str_find line (CHR '';'') \<ge> 0
                then drop (nat (str_find line (CHR '';''))) line else [])"
  have whole: "command @ comment = line"
    by (simp add: command_def comment_def)
  have res: "split_comment line =
      (if str_find command (CHR ''('') \<ge> 0
       then (take (nat (str_find command (CHR ''(''))) command,
             drop (nat (str_find command (CHR ''(''))) command @ comment)
       else (command, comment))"
    by (simp add: split_comment_def Let_def command_def comment_def)
  have "fst (split_comment line) @ snd (split_comment line) = command @ comment"
    unfolding res by (simp del: append_assoc add: append_assoc [symmetric])
  with whole show ?thesis by simp
qed

subsection \<open>The two unbound names\<close>

lemma build_movement_raises:
  "build_movement p d f gcode comment = Inl (NameError ''delta_e'')"
  by (simp add: build_movement_def unbound_name_def)

lemma loop_body_keeps_buffers:
  assumes "loop_body p command = Inr p'"
  shows "layers p' = layers p \<and> movements p' = movements p"
  using assms
  by (auto simp: loop_body_def Let_def build_movement_raises
           split: prod.splits sum.splits if_splits)

lemma parse_loop_keeps_buffers:
  "parse_loop p g = Inr p' \<Longrightarrow> layers p' = layers p \<and> movements p' = movements p"
proof (induction g arbitrary: p)
  case StopIteration
  then show ?case by simp
next
  case (Yield command rest)
  from Yield.prems obtain q where
    step: "loop_body p command = Inr q" and rest: "parse_loop q rest = Inr p'"
    by (auto split: sum.splits)
  from Yield.IH [OF rest] loop_body_keeps_buffers [OF step] show ?case by simp
next
  case (Raise e)
  then show ?case by simp
qed

text \<open>
  C2. The extrusion delta of a Movement is the command's E minus the tracked value; with
  5.0 tracked and E7.5 it is 2.5. The code never gets that far: the call that builds the
  Movement reads the unbound name \<open>delta_e\<close>. On the two lines
  \<open>G1 X0 Y0 Z0 E5.0 F1\<close> and \<open>G1 X1 Y0 Z0 E7.5 F1\<close> the parse raises NameError.
\<close>

theorem movement_raises_name_error:
  "parse_text py_float (''G1 X0 Y0 Z0 E5.0 F1'' @ [LF] @ ''G1 X1 Y0 Z0 E7.5 F1'')
     = Inl (NameError ''delta_e'')"
  by code_simp

text \<open>
  C3. An input without layers is to end in a Parse Error. On the empty text the code
  reads the unbound name \<open>GcodeParseError\<close> and raises NameError; on a text that holds
  only a comment it raises KeyError at \<open>args['E']\<close> before it gets there.
\<close>

theorem no_layers_raises_name_error:
  "parse_text py_float [] = Inl (NameError ''GcodeParseError'')
   \<and> parse_text py_float (''; only a comment'' @ [LF] @ [LF]) = Inl (KeyError (CHR ''E''))"
  by code_simp

text \<open>
  No call of \<open>parse\<close> returns a Document, whatever the float conversion, the parser's
  state and the lines: a command that would build a Movement raises NameError, so both
  buffers stay empty, and the check for an empty result raises NameError too.
\<close>

lemma parse_never_returns: "parse flt p lines \<noteq> Inr ls"
proof
  assume ret: "parse flt p lines = Inr ls"
  then obtain p' where
    loop: "parse_loop (p\<lparr>layers := [], movements := []\<rparr>) (scan flt lines) = Inr p'"
    and fin: "finish p' = Inr ls"
    by (auto simp: parse_def split: sum.splits)
  from parse_loop_keeps_buffers [OF loop] have "layers p' = []" "movements p' = []"
    by simp_all
  then have "finish p' = Inl (NameError ''GcodeParseError'')"
    by (simp add: finish_def unbound_name_def)
  with fin show False by simp
qed

subsection \<open>Destinations\<close>

text \<open>
  C1 as stated: a motion command that lacks one of X, Y, Z produces no destination, the
  parse does not fail on it, and the last extrusion and feedrate are carried forward.
  On the code, \<open>G1 X1 Y2 E1 F1\<close> raises KeyError for Z, and a command without E raises
  KeyError for E.
\<close>

theorem missing_axis_counterexample:
  "command_coords (''G1'', [(CHR ''X'', Some 1), (CHR ''Y'', Some 2), (CHR ''E'', Some 1), (CHR ''F'', Some 1)], [])
     = Inl (KeyError (CHR ''Z''))
   \<and> parse_text py_float ''G1 X1 Y2 E1 F1'' = Inl (KeyError (CHR ''Z''))
   \<and> parse_text py_float (''G1 X0 Y0 Z0 E1 F1'' @ [LF] @ ''G1 X1 Y1 Z0'') = Inl (KeyError (CHR ''E''))"
  by code_simp

text \<open>
  C1, amended. A destination is computed only for the word G1 and exactly when X, Y and
  Z are all keys of its arguments; every other word gives no destination and no error.
  A G1 command that lacks one of X, Y, Z raises KeyError for a missing key, and so does
  the parse. Nothing is carried forward: a command is processed without error only when
  it has both E and F, and the tracked extrusion is then this command's own E.
\<close>

theorem command_coords_destination:
  "(command_coords (gcode, args, comment) = Inr (Some (x, y, z)) \<longleftrightarrow>
      gcode = ''G1'' \<and> map_of args (CHR ''X'') = Some x \<and> map_of args (CHR ''Y'') = Some y
        \<and> map_of args (CHR ''Z'') = Some z)
   \<and> (gcode \<noteq> ''G1'' \<longrightarrow> command_coords (gcode, args, comment) = Inr None)
   \<and> (gcode = ''G1'' \<and> k \<in> set [CHR ''X'', CHR ''Y'', CHR ''Z''] \<and> map_of args k = None \<longrightarrow>
        (\<exists>k'. k' \<in> set [CHR ''X'', CHR ''Y'', CHR ''Z''] \<and> map_of args k' = None
           \<and> command_coords (gcode, args, comment) = Inl (KeyError k')
           \<and> loop_body p (gcode, args, comment) = Inl (KeyError k')))
   \<and> (loop_body p (gcode, args, comment) = Inr p' \<longrightarrow>
        (\<exists>e f. map_of args (CHR ''E'') = Some e \<and> map_of args (CHR ''F'') = Some f
           \<and> self_e_len p' = e))"
proof (intro conjI impI)
  show "command_coords (gcode, args, comment) = Inr (Some (x, y, z)) \<longleftrightarrow>
      gcode = ''G1'' \<and> map_of args (CHR ''X'') = Some x \<and> map_of args (CHR ''Y'') = Some y
        \<and> map_of args (CHR ''Z'') = Some z"
    by (auto simp: command_coords_def getitem_def split: option.splits)
next
  assume "gcode \<noteq> ''G1''"
  then show "command_coords (gcode, args, comment) = Inr None"
    by (simp add: command_coords_def)
next
  assume a: "gcode = ''G1'' \<and> k \<in> set [CHR ''X'', CHR ''Y'', CHR ''Z''] \<and> map_of args k = None"
  then obtain k' where k': "k' \<in> set [CHR ''X'', CHR ''Y'', CHR ''Z'']" "map_of args k' = None"
    "command_coords (gcode, args, comment) = Inl (KeyError k')"
    by (cases "map_of args (CHR ''X'')"; cases "map_of args (CHR ''Y'')";
        cases "map_of args (CHR ''Z'')")
       (auto simp: command_coords_def getitem_def)
  moreover from k'(3) have "loop_body p (gcode, args, comment) = Inl (KeyError k')"
    by (simp add: loop_body_def)
  ultimately show "\<exists>k'. k' \<in> set [CHR ''X'', CHR ''Y'', CHR ''Z''] \<and> map_of args k' = None
           \<and> command_coords (gcode, args, comment) = Inl (KeyError k')
           \<and> loop_body p (gcode, args, comment) = Inl (KeyError k')"
    by blast
next
  assume "loop_body p (gcode, args, comment) = Inr p'"
  then show "\<exists>e f. map_of args (CHR ''E'') = Some e \<and> map_of args (CHR ''F'') = Some f
           \<and> self_e_len p' = e"
    by (auto simp: loop_body_def Let_def getitem_def build_movement_def unbound_name_def
             split: sum.splits option.splits if_splits)
qed

theorem command_coords_destination_witness:
  "command_coords (''G1'', [(CHR ''X'', Some 1), (CHR ''Y'', None), (CHR ''Z'', Some 3)], [])
     = Inr (Some (Some 1, None, Some 3))
   \<and> command_coords (''G2'', [(CHR ''X'', Some 1), (CHR ''Y'', None), (CHR ''Z'', Some 3)], [])
     = Inr None
   \<and> (\<exists>k'. k' \<in> set [CHR ''X'', CHR ''Y'', CHR ''Z'']
          \<and> map_of [(CHR ''X'', Some 1), (CHR ''Z'', Some (3::real))] k' = None
          \<and> command_coords (''G1'', [(CHR ''X'', Some 1), (CHR ''Z'', Some 3)], []) = Inl (KeyError k')
          \<and> loop_body new_parser (''G1'', [(CHR ''X'', Some 1), (CHR ''Z'', Some 3)], [])
               = Inl (KeyError k'))
   \<and> loop_body new_parser (''M101'', [(CHR ''E'', Some 7), (CHR ''F'', Some 1)], [])
        = Inr (new_parser\<lparr>self_flags := 16, self_e_len := Some 7\<rparr>)
   \<and> (\<exists>e f. map_of [(CHR ''E'', Some 7), (CHR ''F'', Some 1)] (CHR ''E'') = Some e
          \<and> map_of [(CHR ''E'', Some 7), (CHR ''F'', Some (1::real))] (CHR ''F'') = Some f
          \<and> self_e_len (new_parser\<lparr>self_flags := 16, self_e_len := Some 7\<rparr>) = e)"
proof -
  have dest: "command_coords (''G1'', [(CHR ''X'', Some 1), (CHR ''Y'', None), (CHR ''Z'', Some 3)], [])
     = Inr (Some (Some 1, None, Some 3))"
    using command_coords_destination [where gcode = "''G1''" and x = "Some 1" and y = None
      and z = "Some 3" and comment = "[]"
      and args = "[(CHR ''X'', Some 1), (CHR ''Y'', None), (CHR ''Z'', Some 3)]",
      THEN conjunct1]
    by simp
  have other: "command_coords (''G2'', [(CHR ''X'', Some 1), (CHR ''Y'', None), (CHR ''Z'', Some 3)], [])
     = Inr None"
    using command_coords_destination [where gcode = "''G2''" and comment = "[]"
      and args = "[(CHR ''X'', Some 1), (CHR ''Y'', None), (CHR ''Z'', Some 3)]",
      THEN conjunct2, THEN conjunct1]
    by simp
  have lacks: "''G1'' = ''G1'' \<and> CHR ''Y'' \<in> set [CHR ''X'', CHR ''Y'', CHR ''Z'']
      \<and> map_of [(CHR ''X'', Some 1), (CHR ''Z'', Some (3::real))] (CHR ''Y'') = None"
    by simp
  have missing: "\<exists>k'. k' \<in> set [CHR ''X'', CHR ''Y'', CHR ''Z'']
          \<and> map_of [(CHR ''X'', Some 1), (CHR ''Z'', Some (3::real))] k' = None
          \<and> command_coords (''G1'', [(CHR ''X'', Some 1), (CHR ''Z'', Some 3)], []) = Inl (KeyError k')
          \<and> loop_body new_parser (''G1'', [(CHR ''X'', Some 1), (CHR ''Z'', Some 3)], [])
               = Inl (KeyError k')"
    by (rule command_coords_destination [where gcode = "''G1''" and comment = "[]"
      and k = "CHR ''Y''" and p = new_parser
      and args = "[(CHR ''X'', Some 1), (CHR ''Z'', Some 3)]",
      THEN conjunct2, THEN conjunct2, THEN conjunct1, THEN mp, OF lacks])
  have run: "loop_body new_parser (''M101'', [(CHR ''E'', Some 7), (CHR ''F'', Some 1)], [])
        = Inr (new_parser\<lparr>self_flags := 16, self_e_len := Some 7\<rparr>)"
    by code_simp
  have kept: "\<exists>e f. map_of [(CHR ''E'', Some 7), (CHR ''F'', Some 1)] (CHR ''E'') = Some e
      \<and> map_of [(CHR ''E'', Some 7), (CHR ''F'', Some (1::real))] (CHR ''F'') = Some f
      \<and> self_e_len (new_parser\<lparr>self_flags := 16, self_e_len := Some 7\<rparr>) = e"
    by (rule command_coords_destination [where gcode = "''M101''" and comment = "[]"
      and p = new_parser and args = "[(CHR ''E'', Some 7), (CHR ''F'', Some 1)]"
      and p' = "new_parser\<lparr>self_flags := 16, self_e_len := Some 7\<rparr>",
      THEN conjunct2, THEN conjunct2, THEN conjunct2, THEN mp, OF run])
  show ?thesis
    by (intro conjI) (rule dest, rule other, rule missing, rule run, rule kept)
qed

subsection \<open>Binary64 rounding\<close>

text \<open>
  The exponent that \<open>binade\<close> computes is the one of the binade of \<open>x\<close>, and
  \<open>round_half_even\<close> gives a nearest integer.
\<close>

lemma floor_bitlen_bounds:
  fixes y :: real
  assumes "1 \<le> y"
  shows "2 powi (bitlen \<lfloor>y\<rfloor> - 1) \<le> y \<and> y < 2 powi (bitlen \<lfloor>y\<rfloor>)"
proof -
  let ?n = "\<lfloor>y\<rfloor>"
  from assms have pos: "0 < ?n" by simp
  from bitlen_bounds [OF pos]
  have lo: "(2::int) ^ nat (bitlen ?n - 1) \<le> ?n" and hi: "?n < (2::int) ^ nat (bitlen ?n)"
    by simp_all
  from pos have b1: "1 \<le> bitlen ?n"
    by (simp add: bitlen_alt_def)
  have "real_of_int ((2::int) ^ nat (bitlen ?n - 1)) \<le> real_of_int ?n"
    using lo by (simp only: of_int_le_iff)
  also have "real_of_int ?n \<le> y" by simp
  finally have l: "2 powi (bitlen ?n - 1) \<le> y"
    using b1 by (simp add: power_int_def)
  from hi have "?n + 1 \<le> (2::int) ^ nat (bitlen ?n)" by simp
  then have up: "real_of_int (?n + 1) \<le> real_of_int ((2::int) ^ nat (bitlen ?n))"
    by (simp only: of_int_le_iff)
  have "y < real_of_int (?n + 1)" by linarith
  also note up
  finally have h: "y < 2 powi (bitlen ?n)"
    using b1 by (simp add: power_int_def)
  from l h show ?thesis ..
qed

lemma binade_bounds:
  assumes "x \<noteq> 0"
  shows "2 powi (binade x) \<le> \<bar>x\<bar> \<and> \<bar>x\<bar> < 2 powi (binade x + 1)"
proof (cases "1 \<le> \<bar>x\<bar>")
  case True
  with floor_bitlen_bounds [OF True] show ?thesis
    by (simp add: binade_def)
next
  case False
  define a where "a = \<bar>x\<bar>"
  define g where "g = bitlen \<lfloor>1 / a\<rfloor>"
  from assms False have a: "0 < a" "a < 1" by (simp_all add: a_def)
  then have "1 \<le> 1 / a" by simp
  from floor_bitlen_bounds [OF this]
  have lo: "2 powi (g - 1) \<le> 1 / a" and hi: "1 / a < 2 powi g"
    by (simp_all add: g_def)
  have p: "0 < (2::real) powi (g - 1)" "0 < (2::real) powi g" by simp_all
  from lo a(1) p(1) have up: "a \<le> 2 powi (1 - g)"
  proof -
    from lo a(1) have "a * 2 powi (g - 1) \<le> 1"
      by (simp add: field_simps)
    then have "a \<le> 1 / 2 powi (g - 1)"
      using p(1) by (simp add: field_simps)
    also have "1 / 2 powi (g - 1) = (2::real) powi (1 - g)"
      using power_int_minus [of "2::real" "g - 1"] by (simp add: divide_inverse)
    finally show ?thesis .
  qed
  have down: "2 powi (- g) < a"
  proof -
    from hi a(1) have "1 < a * 2 powi g"
      by (simp add: field_simps)
    then have "1 / 2 powi g < a"
      using p(2) by (simp add: field_simps)
    then show ?thesis
      by (simp add: power_int_minus divide_inverse)
  qed
  have dbl: "(2::real) powi (1 - g + 1) = 2 * 2 powi (1 - g)"
    using power_int_add [of "2::real" "1 - g" 1] by simp
  have val: "binade x = (if 2 powi (1 - g) \<le> a then 1 - g else - g)"
    using False by (simp add: binade_def a_def g_def Let_def)
  show ?thesis
  proof (cases "2 powi (1 - g) \<le> a")
    case True
    with up have "a = 2 powi (1 - g)" by simp
    with True val dbl a(1) show ?thesis
      unfolding a_def [symmetric] by simp
  next
    case False
    then have "a < 2 powi (1 - g)" by simp
    moreover have "(- g + 1) = 1 - g" by simp
    ultimately show ?thesis
      using False val down unfolding a_def [symmetric] by simp
  qed
qed

lemma round_half_even_nearest: "\<bar>real_of_int (round_half_even q) - q\<bar> \<le> 1 / 2"
  unfolding round_half_even_def Let_def by (simp; linarith)

lemma round_binary64_examples:
  "round_binary64 (1 / 10) = 3602879701896397 / 36028797018963968"
  "round_binary64 (15 / 2) = 15 / 2"
  "round_binary64 (2 ^ 53 + 1) = 2 ^ 53"
  "round_binary64 (2 ^ 53 + 3) = 2 ^ 53 + 4"
  by code_simp+

subsection \<open>Layer boundaries\<close>

text \<open>
  What \<open>is_new_layer\<close> answers on binary64 values: from Z 0.0 to 0.05 no boundary, from
  0.0 to 0.2 a boundary, from 0.0 to 0.1 none (the difference is the number 0.1
  itself), from 1.0 to 1.1 a boundary (the difference of the two binary64 numbers is
  above the binary64 number 0.1). With the marker in the comment the answer is True
  before any Z value is read.
\<close>

lemma is_new_layer_examples:
  "is_new_layer (Some (Some 0, Some 0, Some 0))
     (Some 0, Some 0, Some (round_binary64 (5 / 100))) ''G1'' [] = Inr False"
  "is_new_layer (Some (Some 0, Some 0, Some 0))
     (Some 0, Some 0, Some (round_binary64 (2 / 10))) ''G1'' [] = Inr True"
  "is_new_layer (Some (Some 0, Some 0, Some 0))
     (Some 0, Some 0, Some (round_binary64 (1 / 10))) ''G1'' [] = Inr False"
  "is_new_layer (Some (Some 0, Some 0, Some 1))
     (Some 0, Some 0, Some (round_binary64 (11 / 10))) ''G1'' [] = Inr True"
  "is_new_layer (Some (Some 0, Some 0, Some 0))
     (Some 0, Some 0, Some (round_binary64 (2 / 10))) ''G0'' [] = Inr False"
  by code_simp+

lemma is_new_layer_marker:
  "contains marker_layer comment \<Longrightarrow> is_new_layer s d gcode comment = Inr True"
  by (simp add: is_new_layer_def)

text \<open>
  C4. A command whose comment has the layer marker closes the current layer, whatever
  the Z delta. The code asks \<open>is_new_layer\<close> only after it has built the Movement, and
  building it raises NameError: on \<open>G1 X0 Y0 Z0 E0 F1\<close> followed by
  \<open>G1 X10 Y0 Z0 E1 F1 (<layer> 1 )\<close> (Z delta zero), and on the same with the first Z
  being 1 (Z delta negative), the parse ends in NameError and no layer is closed. With
  the marker on a line of its own between two moves the parse ends in KeyError at
  \<open>args['E']\<close>.
\<close>

theorem layer_marker_raises_name_error:
  "parse_text py_float (''G1 X0 Y0 Z0 E0 F1'' @ [LF] @ ''G1 X10 Y0 Z0 E1 F1 (<layer> 1 )'')
     = Inl (NameError ''delta_e'')
   \<and> parse_text py_float (''G1 X0 Y0 Z1 E0 F1'' @ [LF] @ ''G1 X10 Y0 Z0 E1 F1 (<layer> 1 )'')
     = Inl (NameError ''delta_e'')
   \<and> parse_text py_float
        (''G1 X0 Y0 Z0 E0 F1'' @ [LF] @ ''(<layer> 1 )'' @ [LF] @ ''G1 X1 Y0 Z0 E1 F1'')
     = Inl (KeyError (CHR ''E''))"
  by code_simp

text \<open>
  C5. A move from Z 0.0 to 0.05 closes no layer and a move from Z 0.0 to 0.2 closes
  one. On the code the move to Z 0.2 raises NameError when its Movement is built,
  before \<open>is_new_layer\<close> is asked: on \<open>G1 X0 Y0 Z0.0 E0 F1\<close> followed by
  \<open>G1 X0 Y0 Z0.2 E1 F1\<close> the parse ends in NameError and no layer is closed, and so it
  does for the move to Z 0.05.
\<close>

theorem z_jump_raises_name_error:
  "parse_text py_float (''G1 X0 Y0 Z0.0 E0 F1'' @ [LF] @ ''G1 X0 Y0 Z0.2 E1 F1'')
     = Inl (NameError ''delta_e'')
   \<and> parse_text py_float (''G1 X0 Y0 Z0.0 E0 F1'' @ [LF] @ ''G1 X0 Y0 Z0.05 E1 F1'')
     = Inl (NameError ''delta_e'')"
  by code_simp

subsection \<open>Flags\<close>

lemma has_outer_bit: "has_flag fl FLAG_PERIMETER_OUTER \<longleftrightarrow> bit fl 1"
  by (simp add: has_flag_def FLAG_PERIMETER_OUTER_def bit_iff_and_push_bit_not_eq_0)

lemma clear_two: "(fl AND NOT a) AND NOT b = fl AND NOT (a OR (b::int))"
  by (rule bit_eqI) (auto simp: bit_simps)

lemma set_flags_table: "set_flags fl command = first_match transition_rules fl command"
  by (cases command)
     (simp add: set_flags_def transition_rules_def comment_has_def word_is_def
        set_flag_def clear_flag_def clear_two Let_def)

lemma outer_only_with_perimeter:
  assumes "has_flag (set_flags fl (gcode, args, comment)) FLAG_PERIMETER_OUTER"
    and "\<not> has_flag fl FLAG_PERIMETER_OUTER"
  shows "contains marker_perimeter_start comment \<and> contains ''outer'' comment"
  using assms unfolding has_outer_bit
  by (auto simp: set_flags_def Let_def bit_simps FLAG_PERIMETER_def FLAG_PERIMETER_OUTER_def
        FLAG_LOOP_def FLAG_SURROUND_LOOP_def FLAG_EXTRUDER_ON_def split: if_splits)

text \<open>
  C7. \<open>set_flags\<close> is the transition table read in its fixed order with the first
  match deciding. A command turns PERIMETER_OUTER on only when its comment contains
  the perimeter-start marker together with \<open>outer\<close>; a comment without the
  perimeter-start marker never turns it on.
\<close>

theorem set_flags_priority:
  "set_flags fl (gcode, args, comment) = first_match transition_rules fl (gcode, args, comment)
   \<and> (has_flag (set_flags fl (gcode, args, comment)) FLAG_PERIMETER_OUTER
        \<and> \<not> has_flag fl FLAG_PERIMETER_OUTER \<longrightarrow>
          contains marker_perimeter_start comment \<and> contains ''outer'' comment)
   \<and> (\<not> contains marker_perimeter_start comment \<and> \<not> has_flag fl FLAG_PERIMETER_OUTER \<longrightarrow>
          \<not> has_flag (set_flags fl (gcode, args, comment)) FLAG_PERIMETER_OUTER)"
  using set_flags_table [of fl "(gcode, args, comment)"]
    outer_only_with_perimeter [of fl gcode args comment]
  by blast

theorem set_flags_priority_witness:
  "set_flags 0 (''G1'', [], ''(<perimeter> outer'')
     = first_match transition_rules 0 (''G1'', [], ''(<perimeter> outer'')
   \<and> has_flag (set_flags 0 (''G1'', [], ''(<perimeter> outer'')) FLAG_PERIMETER_OUTER
   \<and> \<not> has_flag 0 FLAG_PERIMETER_OUTER
   \<and> contains marker_perimeter_start ''(<perimeter> outer''
   \<and> contains ''outer'' ''(<perimeter> outer''
   \<and> \<not> contains marker_perimeter_start ''; the outer wall''
   \<and> \<not> has_flag (set_flags 0 (''M101'', [], ''; the outer wall'')) FLAG_PERIMETER_OUTER"
proof -
  have on: "has_flag (set_flags 0 (''G1'', [], ''(<perimeter> outer'')) FLAG_PERIMETER_OUTER"
    by code_simp
  have off: "\<not> has_flag 0 FLAG_PERIMETER_OUTER"
    by code_simp
  have unrelated: "\<not> contains marker_perimeter_start ''; the outer wall''"
    by code_simp
  from on off have both: "contains marker_perimeter_start ''(<perimeter> outer''
      \<and> contains ''outer'' ''(<perimeter> outer''"
    using set_flags_priority [where fl = 0 and gcode = "''G1''" and args = "[]"
      and comment = "''(<perimeter> outer''", THEN conjunct2, THEN conjunct1]
    by blast
  from unrelated off
  have stays: "\<not> has_flag (set_flags 0 (''M101'', [], ''; the outer wall'')) FLAG_PERIMETER_OUTER"
    using set_flags_priority [where fl = 0 and gcode = "''M101''" and args = "[]"
      and comment = "''; the outer wall''", THEN conjunct2, THEN conjunct2]
    by blast
  have table: "set_flags 0 (''G1'', [], ''(<perimeter> outer'')
     = first_match transition_rules 0 (''G1'', [], ''(<perimeter> outer'')"
    by (rule set_flags_priority [where fl = 0 and gcode = "''G1''" and args = "[]"
      and comment = "''(<perimeter> outer''", THEN conjunct1])
  from table on off both unrelated stays show ?thesis by blast
qed

subsection \<open>Argument errors\<close>

lemma contains_prefix: "prefix sub s \<Longrightarrow> contains sub s"
  by (cases s) auto

lemma contains_append: "contains sub (pre @ sub @ post)"
  by (induction pre) (auto simp: contains_prefix)

lemma split_words_nonempty: "[] \<notin> set (split_words cur s)"
  by (induction s arbitrary: cur) auto

lemma split_ws_nonempty: "[] \<notin> set (split_ws s)"
  by (simp add: split_ws_def split_words_nonempty)

lemma arg_tokens_nonempty: "[] \<notin> set (arg_tokens line)"
proof -
  have "set (tl (split_ws (fst (split_comment line)))) \<subseteq> set (split_ws (fst (split_comment line)))"
    by (cases "split_ws (fst (split_comment line))") auto
  with split_ws_nonempty show ?thesis
    unfolding arg_tokens_def by blast
qed

lemma scan_args_loop_ok:
  "[] \<notin> set toks \<Longrightarrow> \<not> list_ex (malformed flt) toks \<Longrightarrow> \<exists>d'. scan_args_loop flt toks d = Inr d'"
proof (induction toks arbitrary: d)
  case Nil
  then show ?case by simp
next
  case (Cons tok toks)
  then show ?case
    by (cases tok; cases "flt (drop 1 tok)") (auto simp: malformed_def)
qed

lemma scan_args_loop_skip:
  "tok \<noteq> [] \<Longrightarrow> \<not> malformed flt tok \<Longrightarrow>
     \<exists>d'. scan_args_loop flt (tok # toks) d = scan_args_loop flt toks d'"
  by (cases tok; cases "flt (drop 1 tok)") (auto simp: malformed_def)

lemma scan_args_loop_bad:
  "[] \<notin> set toks \<Longrightarrow> list_ex (malformed flt) toks \<Longrightarrow>
     \<exists>tok msg. tok \<in> set toks \<and> drop 1 tok \<noteq> [] \<and> flt (drop 1 tok) = Inl msg
        \<and> scan_args_loop flt toks d = Inl (GcodeArgumentError msg)"
proof (induction toks arbitrary: d)
  case Nil
  then show ?case by simp
next
  case (Cons tok toks)
  show ?case
  proof (cases "malformed flt tok")
    case True
    then obtain msg where "drop 1 tok \<noteq> []" "flt (drop 1 tok) = Inl msg"
      by (auto simp: malformed_def isl_def)
    then show ?thesis by auto
  next
    case False
    with Cons.prems have rest: "[] \<notin> set toks" "list_ex (malformed flt) toks" "tok \<noteq> []"
      by auto
    from scan_args_loop_skip [OF rest(3) False] obtain d' where
      skip: "scan_args_loop flt (tok # toks) d = scan_args_loop flt toks d'" by blast
    from Cons.IH [OF rest(1,2), of d'] obtain tok' msg where
      "tok' \<in> set toks" "drop 1 tok' \<noteq> []" "flt (drop 1 tok') = Inl msg"
      "scan_args_loop flt toks d' = Inl (GcodeArgumentError msg)" by blast
    with skip show ?thesis
      by (intro exI [of _ tok'] exI [of _ msg]) simp
  qed
qed

lemma scan_line_args:
  "scan_line flt line =
     (if split_ws (fst (split_comment line)) = [] then Inr ([], [], snd (split_comment line))
      else (case scan_args_loop flt (arg_tokens line) [] of
              Inl e \<Rightarrow> Inl e
            | Inr d \<Rightarrow> Inr (hd (split_ws (fst (split_comment line))), d, snd (split_comment line))))"
  by (cases "split_comment line")
     (simp add: scan_line_def scan_args_def arg_tokens_def Let_def split: sum.splits)

lemma scan_line_ok:
  assumes "\<not> list_ex (malformed flt) (arg_tokens line)"
  shows "\<exists>tokens. scan_line flt line = Inr tokens"
proof -
  from scan_args_loop_ok [OF arg_tokens_nonempty assms]
  obtain d' where "scan_args_loop flt (arg_tokens line) [] = Inr d'" by blast
  then show ?thesis by (simp add: scan_line_args)
qed

lemma scan_line_bad:
  assumes "list_ex (malformed flt) (arg_tokens line)"
  shows "\<exists>tok msg. tok \<in> set (arg_tokens line) \<and> drop 1 tok \<noteq> [] \<and> flt (drop 1 tok) = Inl msg
        \<and> scan_line flt line = Inl (GcodeArgumentError msg)"
proof -
  from scan_args_loop_bad [OF arg_tokens_nonempty assms]
  obtain tok msg where t: "tok \<in> set (arg_tokens line)" "drop 1 tok \<noteq> []"
    "flt (drop 1 tok) = Inl msg"
    "scan_args_loop flt (arg_tokens line) [] = Inl (GcodeArgumentError msg)" by blast
  from t(1) have "split_ws (fst (split_comment line)) \<noteq> []"
    by (auto simp: arg_tokens_def)
  with t show ?thesis by (auto simp: scan_line_args)
qed

lemma scan_from_raises:
  "list_all (\<lambda>l. \<not> list_ex (malformed flt) (arg_tokens l)) pre \<Longrightarrow>
   scan_line flt line = Inl (GcodeArgumentError msg) \<Longrightarrow>
   raised (scan_from flt n (pre @ line # post))
     = Some (GcodeParserError (parse_error_message msg (n + length pre + 1) line))"
proof (induction pre arbitrary: n)
  case Nil
  then show ?case by simp
next
  case (Cons l pre)
  from Cons.prems(1) have good: "\<not> list_ex (malformed flt) (arg_tokens l)"
    and rest: "list_all (\<lambda>l. \<not> list_ex (malformed flt) (arg_tokens l)) pre"
    by simp_all
  from scan_line_ok [OF good] obtain tokens where "scan_line flt l = Inr tokens" by blast
  with Cons.IH [OF rest Cons.prems(2), of "Suc n"] show ?case
    by simp
qed

text \<open>
  C6 as stated: the Argument Error for the token \<open>E1.2.3\<close> refers to that exact token.
  On the code the error carries the message of \<open>float('1.2.3')\<close>: the letter is cut off
  before the conversion, the message does not contain \<open>E1.2.3\<close>, and the token
  \<open>X1.2.3\<close> gives the very same error.
\<close>

theorem argument_error_counterexample:
  "scan_args py_float [''E1.2.3''] = Inl (GcodeArgumentError ''invalid literal for float(): 1.2.3'')
   \<and> scan_args py_float [''X1.2.3''] = Inl (GcodeArgumentError ''invalid literal for float(): 1.2.3'')
   \<and> \<not> contains ''E1.2.3'' ''invalid literal for float(): 1.2.3''
   \<and> scan_line py_float ''G1 X0 E1.2.3''
        = Inl (GcodeArgumentError ''invalid literal for float(): 1.2.3'')"
  by code_simp

text \<open>
  C6, amended. A line that has a malformed argument token makes \<open>scan_line\<close> raise an
  Argument Error whose message is the float conversion's message for the characters
  after the letter of such a token; every other line is tokenized without error. When
  the lines before it are free of malformed tokens, the command stream ends with a
  Parse Error whose message is built from that message, the 1-based number of the line
  and the line's text, and contains the latter two.
\<close>

theorem scan_line_argument_error:
  "(list_ex (malformed flt) (arg_tokens line) \<longrightarrow>
      (\<exists>tok msg. tok \<in> set (arg_tokens line) \<and> drop 1 tok \<noteq> [] \<and> flt (drop 1 tok) = Inl msg
         \<and> scan_line flt line = Inl (GcodeArgumentError msg)))
   \<and> (\<not> list_ex (malformed flt) (arg_tokens line) \<longrightarrow> (\<exists>tokens. scan_line flt line = Inr tokens))
   \<and> (list_all (\<lambda>l. \<not> list_ex (malformed flt) (arg_tokens l)) pre
        \<and> scan_line flt line = Inl (GcodeArgumentError msg) \<longrightarrow>
          raised (scan flt (pre @ line # post))
            = Some (GcodeParserError (parse_error_message msg (length pre + 1) line))
          \<and> contains (str_of_nat (length pre + 1)) (parse_error_message msg (length pre + 1) line)
          \<and> contains line (parse_error_message msg (length pre + 1) line))"
proof -
  let ?head = "''Error parsing arguments: '' @ msg @ '' on line ''"
  let ?no = "str_of_nat (length pre + 1)"
  let ?message = "parse_error_message msg (length pre + 1) line"
  have "contains ?no (?head @ ?no @ ([CHR 0x0A, CHR 0x09] @ line))"
    by (rule contains_append)
  then have has_number: "contains ?no ?message"
    by (simp only: parse_error_message_def append_assoc)
  have "contains line ((?head @ ?no @ [CHR 0x0A, CHR 0x09]) @ line @ [])"
    by (rule contains_append)
  then have has_line: "contains line ?message"
    by (simp only: parse_error_message_def append_assoc append_Nil2)
  have stream: "raised (scan flt (pre @ line # post)) = Some (GcodeParserError ?message)"
    if "list_all (\<lambda>l. \<not> list_ex (malformed flt) (arg_tokens l)) pre"
      and "scan_line flt line = Inl (GcodeArgumentError msg)"
    using scan_from_raises [OF that, of 0 post] by (simp add: scan_def)
  from scan_line_bad [of flt line] scan_line_ok [of flt line] stream has_number has_line
  show ?thesis by blast
qed

theorem scan_line_argument_error_witness:
  "list_ex (malformed py_float) (arg_tokens ''G1 X0 E1.2.3'')
   \<and> (\<exists>tok msg. tok \<in> set (arg_tokens ''G1 X0 E1.2.3'') \<and> drop 1 tok \<noteq> []
          \<and> py_float (drop 1 tok) = Inl msg
          \<and> scan_line py_float ''G1 X0 E1.2.3'' = Inl (GcodeArgumentError msg))
   \<and> \<not> list_ex (malformed py_float) (arg_tokens ''G1 X0 Y1 ; E1.2.3'')
   \<and> (\<exists>tokens. scan_line py_float ''G1 X0 Y1 ; E1.2.3'' = Inr tokens)
   \<and> list_all (\<lambda>l. \<not> list_ex (malformed py_float) (arg_tokens l)) [''G1 X0 Y1 ; E1.2.3'', ''; note'']
   \<and> scan_line py_float ''G1 X0 E1.2.3''
        = Inl (GcodeArgumentError ''invalid literal for float(): 1.2.3'')
   \<and> raised (scan py_float ([''G1 X0 Y1 ; E1.2.3'', ''; note''] @ ''G1 X0 E1.2.3'' # [''G1 X1'']))
        = Some (GcodeParserError
                 (parse_error_message ''invalid literal for float(): 1.2.3'' 3 ''G1 X0 E1.2.3''))"
proof -
  have bad: "list_ex (malformed py_float) (arg_tokens ''G1 X0 E1.2.3'')"
    by code_simp
  have good: "\<not> list_ex (malformed py_float) (arg_tokens ''G1 X0 Y1 ; E1.2.3'')"
    by code_simp
  have before: "list_all (\<lambda>l. \<not> list_ex (malformed py_float) (arg_tokens l))
                  [''G1 X0 Y1 ; E1.2.3'', ''; note'']"
    by code_simp
  have fails: "scan_line py_float ''G1 X0 E1.2.3''
        = Inl (GcodeArgumentError ''invalid literal for float(): 1.2.3'')"
    by code_simp
  note inst = scan_line_argument_error [where flt = py_float and line = "''G1 X0 E1.2.3''"
      and pre = "[''G1 X0 Y1 ; E1.2.3'', ''; note'']" and post = "[''G1 X1'']"
      and msg = "''invalid literal for float(): 1.2.3''"]
  have c1: "\<exists>tok msg. tok \<in> set (arg_tokens ''G1 X0 E1.2.3'') \<and> drop 1 tok \<noteq> []
          \<and> py_float (drop 1 tok) = Inl msg
          \<and> scan_line py_float ''G1 X0 E1.2.3'' = Inl (GcodeArgumentError msg)"
    by (rule inst [THEN conjunct1, THEN mp, OF bad])
  have c2: "\<exists>tokens. scan_line py_float ''G1 X0 Y1 ; E1.2.3'' = Inr tokens"
    by (rule scan_line_argument_error [where flt = py_float and line = "''G1 X0 Y1 ; E1.2.3''",
          THEN conjunct2, THEN conjunct1, THEN mp, OF good])
  have three: "length [''G1 X0 Y1 ; E1.2.3'', ''; note''] + 1 = 3"
    by simp
  have c3: "raised (scan py_float ([''G1 X0 Y1 ; E1.2.3'', ''; note''] @ ''G1 X0 E1.2.3'' # [''G1 X1'']))
        = Some (GcodeParserError
                 (parse_error_message ''invalid literal for float(): 1.2.3'' 3 ''G1 X0 E1.2.3''))"
    using inst [THEN conjunct2, THEN conjunct2, THEN mp, OF conjI [OF before fails], THEN conjunct1]
    by (simp only: three)
  from bad c1 good c2 before fails c3 show ?thesis by blast
qed

subsection \<open>Lines\<close>

lemma CR_neq_LF: "CR \<noteq> LF"
  by (simp add: CR_def LF_def)

lemma replace_cr: "replace [CR] [LF] s = map cr_to_lf s"
  by (induction s) (simp_all add: cr_to_lf_def)

lemma replace_lf_free_prefix:
  "LF \<notin> set l \<Longrightarrow> replace [LF, LF] [LF] (l @ r) = l @ replace [LF, LF] [LF] r"
  by (induction l) auto

lemma replace_lf_free: "LF \<notin> set l \<Longrightarrow> replace [LF, LF] [LF] l = l"
  using replace_lf_free_prefix [of l "[]"] by simp

lemma replace_single_lf:
  "r = [] \<or> hd r \<noteq> LF \<Longrightarrow> replace [LF, LF] [LF] (LF # r) = LF # replace [LF, LF] [LF] r"
  by (cases r) auto

lemma replace_double_lf:
  "replace [LF, LF] [LF] (LF # LF # r) = LF # replace [LF, LF] [LF] r"
  by simp

lemma split_sep_nonempty: "split_sep c s \<noteq> []"
  by (induction s) (auto split: list.splits)

lemma split_sep_free_prefix: "c \<notin> set l \<Longrightarrow> split_sep c (l @ c # r) = l # split_sep c r"
  by (induction l) auto

lemma split_sep_free: "c \<notin> set l \<Longrightarrow> split_sep c l = [l]"
  by (induction l) auto

lemma split_sep_lines: "l \<in> set (split_sep c s) \<Longrightarrow> c \<notin> set l \<and> set l \<subseteq> set s"
proof (induction s arbitrary: l)
  case Nil
  then show ?case by simp
next
  case (Cons x xs)
  show ?case
  proof (cases "x = c")
    case True
    with Cons show ?thesis by auto
  next
    case False
    obtain h t where ht: "split_sep c xs = h # t"
      using split_sep_nonempty [of c xs] by (cases "split_sep c xs") auto
    with False Cons.prems have "l = x # h \<or> l \<in> set t" by simp
    then show ?thesis
    proof
      assume "l = x # h"
      with Cons.IH [of h] ht False show ?thesis by auto
    next
      assume "l \<in> set t"
      with Cons.IH [of l] ht show ?thesis by auto
    qed
  qed
qed

lemma replace_lf_subset: "set (replace [LF, LF] [LF] s) \<subseteq> set s"
proof (induction "[LF, LF]" "[LF]" s rule: replace.induct)
  case 1
  then show ?case by simp
next
  case (2 c cs)
  show ?case
  proof (cases "prefix [LF, LF] (c # cs)")
    case True
    with 2 have "set (replace [LF, LF] [LF] (drop 2 (c # cs))) \<subseteq> set (drop 2 (c # cs))"
      by simp
    moreover have "set (drop 2 (c # cs)) \<subseteq> set (c # cs)"
      by (rule set_drop_subset)
    moreover from True have "c = LF" by simp
    ultimately show ?thesis using True by auto
  next
    case False
    with 2 show ?thesis by auto
  qed
qed


lemma join_lines_head:
  "list_all lf_joint qs \<Longrightarrow> LF \<notin> set last_line \<Longrightarrow>
     join_lines qs last_line = [] \<or> hd (join_lines qs last_line) \<noteq> LF"
proof (cases qs)
  case Nil
  assume "LF \<notin> set last_line"
  with Nil show ?thesis by (cases last_line) auto
next
  case (Cons q rest)
  assume "list_all lf_joint qs"
  with Cons obtain l sep where q: "q = (l, sep)" "l \<noteq> []" "LF \<notin> set l"
    by (cases q) (auto simp: lf_joint_def)
  then have "hd (join_lines qs last_line) = hd l"
    using Cons by simp
  with q show ?thesis by (cases l) auto
qed

lemma split_joined_lf:
  "list_all lf_joint qs \<Longrightarrow> LF \<notin> set last_line \<Longrightarrow>
     split_sep LF (replace [LF, LF] [LF] (join_lines qs last_line)) = map fst qs @ [last_line]"
proof (induction qs)
  case Nil
  then show ?case by (simp add: replace_lf_free split_sep_free)
next
  case (Cons q qs)
  obtain l sep where q: "q = (l, sep)" by (cases q)
  from Cons.prems q have joint: "lf_joint (l, sep)" and rest: "list_all lf_joint qs"
    by simp_all
  from joint have l: "LF \<notin> set l" and sep: "sep = [LF] \<or> sep = [LF, LF]"
    by (simp_all add: lf_joint_def)
  let ?r = "join_lines qs last_line"
  from join_lines_head [OF rest Cons.prems(2)] have hd: "?r = [] \<or> hd ?r \<noteq> LF" .
  have "replace [LF, LF] [LF] (sep @ ?r) = LF # replace [LF, LF] [LF] ?r"
    using sep
  proof
    assume "sep = [LF]"
    with replace_single_lf [OF hd] show ?thesis by simp
  next
    assume "sep = [LF, LF]"
    with replace_double_lf [of ?r] show ?thesis by simp
  qed
  then have "replace [LF, LF] [LF] (join_lines (q # qs) last_line)
      = l @ LF # replace [LF, LF] [LF] ?r"
    using q replace_lf_free_prefix [OF l, of "sep @ ?r"] by simp
  then have "split_sep LF (replace [LF, LF] [LF] (join_lines (q # qs) last_line))
      = l # split_sep LF (replace [LF, LF] [LF] ?r)"
    using split_sep_free_prefix [OF l] by simp
  with Cons.IH [OF rest Cons.prems(2)] q show ?case by simp
qed

lemma map_join_lines:
  "map f (join_lines ps last_line)
     = join_lines (map (\<lambda>ls. (map f (fst ls), map f (snd ls))) ps) (map f last_line)"
  by (induction ps) auto

lemma cr_to_lf_free: "CR \<notin> set l \<Longrightarrow> map cr_to_lf l = l"
  by (induction l) (auto simp: cr_to_lf_def)

lemma lf_joint_of_separator:
  assumes "line_then_separator ls"
  shows "lf_joint (fst ls, map cr_to_lf (snd ls))"
  using assms CR_neq_LF
  by (auto simp: line_then_separator_def lf_joint_def separator_free_def is_separator_def
        cr_to_lf_def)

lemma split_lines_joined:
  assumes "list_all line_then_separator ps" and "separator_free last_line"
  shows "split_lines (join_lines ps last_line) = map fst ps @ [last_line]"
proof -
  let ?qs = "map (\<lambda>ls. (fst ls, map cr_to_lf (snd ls))) ps"
  from assms(1) have same: "map (\<lambda>ls. (map cr_to_lf (fst ls), map cr_to_lf (snd ls))) ps = ?qs"
    by (induction ps) (auto simp: line_then_separator_def separator_free_def cr_to_lf_free)
  from assms(2) have last: "map cr_to_lf last_line = last_line" "LF \<notin> set last_line"
    by (simp_all add: separator_free_def cr_to_lf_free)
  from assms(1) have joints: "list_all lf_joint ?qs"
    by (induction ps) (auto simp: lf_joint_of_separator)
  have "replace [CR] [LF] (join_lines ps last_line) = join_lines ?qs last_line"
    by (simp add: replace_cr map_join_lines same last)
  then have "split_lines (join_lines ps last_line) = map fst ?qs @ [last_line]"
    using split_joined_lf [OF joints last(2)] by (simp add: split_lines_def)
  then show ?thesis by (simp add: comp_def)
qed

lemma split_lines_separator_free: "list_all separator_free (split_lines content)"
proof -
  have "separator_free l" if "l \<in> set (split_lines content)" for l
  proof -
    from that split_sep_lines
    have l: "LF \<notin> set l" "set l \<subseteq> set (replace [LF, LF] [LF] (replace [CR] [LF] content))"
      unfolding split_lines_def by blast+
    have "CR \<notin> set (map cr_to_lf content)"
      using CR_neq_LF by (auto simp: cr_to_lf_def)
    with l(2) replace_lf_subset [of "replace [CR] [LF] content"] have "CR \<notin> set l"
      by (auto simp: replace_cr)
    with l(1) show ?thesis by (simp add: separator_free_def)
  qed
  then show ?thesis by (simp add: list_all_iff)
qed

text \<open>
  C8 as stated: the empty input yields zero lines. On the code it yields one line, the
  empty string.
\<close>

theorem empty_input_counterexample: "split_lines [] = [[]] \<and> length (split_lines []) \<noteq> 0"
  by code_simp

text \<open>
  C8, amended. \<open>split_lines\<close> is total and returns at least one line, and no line it
  returns contains a carriage return or a newline. Where non-empty lines are joined
  by CR LF, a bare CR or a bare LF, or by one of CR and LF immediately repeated, the
  result is exactly those lines in order, with no blank line between them. The empty
  input yields one empty line.
\<close>

theorem split_lines_separators:
  "split_lines content \<noteq> []
   \<and> list_all separator_free (split_lines content)
   \<and> (list_all line_then_separator ps \<and> separator_free last_line \<longrightarrow>
        split_lines (join_lines ps last_line) = map fst ps @ [last_line])
   \<and> split_lines [] = [[]]"
proof -
  have "split_lines content \<noteq> []"
    by (simp add: split_lines_def split_sep_nonempty)
  moreover have "split_lines [] = [[]]"
    by (simp add: split_lines_def)
  ultimately show ?thesis
    using split_lines_separator_free [of content] split_lines_joined [of ps last_line]
    by blast
qed

theorem split_lines_separators_witness:
  "list_all line_then_separator
     [(''G1 X0'', [CR, LF]), (''G1 X1'', [CR]), (''G1 X2'', [LF]), (''G1 X3'', [LF, LF]),
      (''; c'', [CR, CR]), (''M101'', [LF, CR])]
   \<and> separator_free ''M103''
   \<and> split_lines (''G1 X0'' @ [CR, LF] @ ''G1 X1'' @ [CR] @ ''G1 X2'' @ [LF] @ ''G1 X3''
        @ [LF, LF] @ ''; c'' @ [CR, CR] @ ''M101'' @ [LF, CR] @ ''M103'')
      = [''G1 X0'', ''G1 X1'', ''G1 X2'', ''G1 X3'', ''; c'', ''M101'', ''M103'']"
proof -
  have lines: "list_all line_then_separator
     [(''G1 X0'', [CR, LF]), (''G1 X1'', [CR]), (''G1 X2'', [LF]), (''G1 X3'', [LF, LF]),
      (''; c'', [CR, CR]), (''M101'', [LF, CR])]"
    by code_simp
  have final: "separator_free ''M103''"
    by code_simp
  have "split_lines (join_lines
     [(''G1 X0'', [CR, LF]), (''G1 X1'', [CR]), (''G1 X2'', [LF]), (''G1 X3'', [LF, LF]),
      (''; c'', [CR, CR]), (''M101'', [LF, CR])] ''M103'')
     = map fst [(''G1 X0'', [CR, LF]), (''G1 X1'', [CR]), (''G1 X2'', [LF]), (''G1 X3'', [LF, LF]),
      (''; c'', [CR, CR]), (''M101'', [LF, CR])] @ [''M103'']"
    by (rule split_lines_separators [THEN conjunct2, THEN conjunct2, THEN conjunct1, THEN mp,
          OF conjI [OF lines final]])
  then have "split_lines (''G1 X0'' @ [CR, LF] @ ''G1 X1'' @ [CR] @ ''G1 X2'' @ [LF] @ ''G1 X3''
        @ [LF, LF] @ ''; c'' @ [CR, CR] @ ''M101'' @ [LF, CR] @ ''M103'')
      = [''G1 X0'', ''G1 X1'', ''G1 X2'', ''G1 X3'', ''; c'', ''M101'', ''M103'']"
    by simp
  with lines final show ?thesis by blast
qed

end
